theory Spec2Isabelle
  imports Complex_Main "HOL-Library.AList"
begin

section \<open>Latent representations for spatial transcriptomics: the orchestration layer\<close>

text \<open>
  A shallow embedding of \<^verbatim>\<open>src/GPS/find_latent_representation.py\<close>: the configuration
  record, the class \<^verbatim>\<open>Latent_Representation_Finder\<close> and the driver
  \<^verbatim>\<open>run_find_latent_representation\<close>.

  The numeric routines the file calls (scanpy, scikit-learn, the GNN-VAE trainer, the
  adjacency builder, the HDF5 reader and writer, pathlib) are not part of the file. They are
  parameters of the model, collected in the record \<open>libs\<close>; each may fail, and a failure is
  an exception that the Python code never catches. The pandas operations the driver performs
  itself (boolean masks, \<^verbatim>\<open>value_counts\<close>, \<^verbatim>\<open>unique\<close>, \<^verbatim>\<open>concat\<close>, \<^verbatim>\<open>.loc\<close>) are modelled
  concretely on lists.
\<close>

subsection \<open>Errors\<close>

datatype error =
    KeyError string
  | ValueError string
  | AttributeError string
  | External string

subsection \<open>Matrices and the annotated dataset\<close>

text \<open>
  A matrix is the list of its rows; \<open>'v\<close> is the type of a matrix entry (a float in the
  source, never computed on by this file). \<open>shape0\<close> and \<open>shape1\<close> are numpy's
  \<^verbatim>\<open>shape[0]\<close> and \<^verbatim>\<open>shape[1]\<close>; a matrix without rows has width 0 here.
\<close>

type_synonym 'v matrix = "'v list list"

definition shape0 :: "'v matrix \<Rightarrow> nat" where
  "shape0 m = length m"

definition shape1 :: "'v matrix \<Rightarrow> nat" where
  "shape1 m = (case m of [] \<Rightarrow> 0 | r # _ \<Rightarrow> length r)"

text \<open>Python's slice \<^verbatim>\<open>xs[0:k]\<close>: a negative bound counts from the end.\<close>

definition py_slice_to :: "int \<Rightarrow> 'a list \<Rightarrow> 'a list" where
  "py_slice_to k xs =
     (if 0 \<le> k then take (nat k) xs else take (length xs - nat (- k)) xs)"

text \<open>A value of a metadata column; \<open>Null\<close> is what \<^verbatim>\<open>pd.isnull\<close> detects.\<close>

datatype obs_val = Str string | Num int | Null

text \<open>
  The AnnData object, reduced to what the file touches: the row names, the per-row metadata
  columns \<open>obs\<close>, the expression matrix \<open>X\<close>, the named layers, the named per-row
  embeddings \<open>obsm\<close>, and the column \<^verbatim>\<open>var.highly_variable\<close> (absent until the gene
  selection has run). Dictionaries are association lists in insertion order.
\<close>

record 'v adata =
  obs_names :: "string list"
  var_names :: "string list"
  obs :: "(string \<times> obs_val list) list"
  X :: "'v matrix"
  layers :: "(string \<times> 'v matrix) list"
  obsm :: "(string \<times> 'v matrix) list"
  highly_variable :: "bool list option"

definition n_obs :: "'v adata \<Rightarrow> nat" where
  "n_obs a = length (obs_names a)"

text \<open>Indexing with a boolean mask keeps the positions where the mask is true.\<close>

definition select_mask :: "bool list \<Rightarrow> 'a list \<Rightarrow> 'a list" where
  "select_mask keep xs = map fst (filter snd (zip xs keep))"

text \<open>\<^verbatim>\<open>adata[mask, :]\<close>: every per-row component is restricted to the masked rows.\<close>

definition subset_obs :: "bool list \<Rightarrow> 'v adata \<Rightarrow> 'v adata" where
  "subset_obs keep a = a\<lparr>
     obs_names := select_mask keep (obs_names a),
     obs := map (\<lambda>(k, c). (k, select_mask keep c)) (obs a),
     X := select_mask keep (X a),
     layers := map (\<lambda>(k, m). (k, select_mask keep m)) (layers a),
     obsm := map (\<lambda>(k, m). (k, select_mask keep m)) (obsm a)\<rparr>"

text \<open>
  \<^verbatim>\<open>adata.obs[key]\<close> raises KeyError for a column that does not exist; the columns are
  named by strings, so the key \<^verbatim>\<open>None\<close> names none.
\<close>

definition obs_getitem :: "'v adata \<Rightarrow> string option \<Rightarrow> error + obs_val list" where
  "obs_getitem a key =
     (case key of
        None \<Rightarrow> Inl (KeyError ''None'')
      | Some k \<Rightarrow> (case map_of (obs a) k of
                     None \<Rightarrow> Inl (KeyError k)
                   | Some c \<Rightarrow> Inr c))"

definition obsm_getitem :: "'v adata \<Rightarrow> string \<Rightarrow> error + 'v matrix" where
  "obsm_getitem a k =
     (case map_of (obsm a) k of None \<Rightarrow> Inl (KeyError k) | Some m \<Rightarrow> Inr m)"

text \<open>
  \<^verbatim>\<open>adata.layers[key]\<close>: the layers are keyed by strings, so the key \<^verbatim>\<open>None\<close> is never
  present.
\<close>

definition layers_getitem :: "'v adata \<Rightarrow> string option \<Rightarrow> error + 'v matrix" where
  "layers_getitem a key =
     (case key of
        None \<Rightarrow> Inl (KeyError ''None'')
      | Some k \<Rightarrow> (case map_of (layers a) k of
                     None \<Rightarrow> Inl (KeyError k)
                   | Some m \<Rightarrow> Inr m))"

text \<open>
  \<^verbatim>\<open>adata.obsm[key] = m\<close> and \<^verbatim>\<open>adata.obs[key] = column\<close>: AnnData and pandas refuse a
  value whose number of rows is not the dataset's.
\<close>

definition set_obsm :: "string \<Rightarrow> 'v matrix \<Rightarrow> 'v adata \<Rightarrow> error + 'v adata" where
  "set_obsm key m a =
     (if shape0 m = n_obs a then Inr (a\<lparr>obsm := AList.update key m (obsm a)\<rparr>)
      else Inl (ValueError key))"

definition set_obs :: "string \<Rightarrow> obs_val list \<Rightarrow> 'v adata \<Rightarrow> error + 'v adata" where
  "set_obs key c a =
     (if length c = n_obs a then Inr (a\<lparr>obs := AList.update key c (obs a)\<rparr>)
      else Inl (ValueError key))"

subsection \<open>pandas: counting, unique values, frames\<close>

text \<open>\<^verbatim>\<open>Series.unique()\<close>: the distinct values in order of first appearance.\<close>

definition unique :: "'a list \<Rightarrow> 'a list" where
  "unique xs = rev (remdups (rev xs))"

text \<open>
  \<^verbatim>\<open>Series.value_counts()\<close> (nulls are not counted), and the index of the entries of a
  count table that reach a bound: \<^verbatim>\<open>num[num >= 30].index.to_list()\<close>.
\<close>

definition value_counts :: "obs_val list \<Rightarrow> (obs_val \<times> nat) list" where
  "value_counts c =
     map (\<lambda>v. (v, count_list c v)) (unique (filter (\<lambda>v. v \<noteq> Null) c))"

definition index_at_least :: "nat \<Rightarrow> (obs_val \<times> nat) list \<Rightarrow> obs_val list" where
  "index_at_least b num = map fst (filter (\<lambda>(v, n). b \<le> n) num)"

text \<open>
  A data frame: row labels, number of columns, rows. \<open>DataFrame_empty\<close> is
  \<^verbatim>\<open>pd.DataFrame()\<close>; \<open>DataFrame_indexed\<close> is \<^verbatim>\<open>pd.DataFrame(m)\<close> followed by the
  assignment of its \<^verbatim>\<open>index\<close>, which raises when the lengths differ.
\<close>

record 'v dataframe =
  df_index :: "string list"
  df_columns :: nat
  df_rows :: "'v matrix"

definition DataFrame_empty :: "'v dataframe" where
  "DataFrame_empty = \<lparr>df_index = [], df_columns = 0, df_rows = []\<rparr>"

definition DataFrame_indexed :: "string list \<Rightarrow> 'v matrix \<Rightarrow> error + 'v dataframe" where
  "DataFrame_indexed names m =
     (if length names = shape0 m
      then Inr \<lparr>df_index = names, df_columns = shape1 m, df_rows = m\<rparr>
      else Inl (ValueError ''Length mismatch''))"

text \<open>
  \<^verbatim>\<open>pd.concat((a, b), axis=0)\<close>: the rows of \<open>a\<close> then the rows of \<open>b\<close>; the columns are
  the union of both column ranges, and a row is filled with NaN where it has no value.
\<close>

definition pad_row :: "'v \<Rightarrow> nat \<Rightarrow> 'v list \<Rightarrow> 'v list" where
  "pad_row nan w r = r @ replicate (w - length r) nan"

definition concat_frames :: "'v \<Rightarrow> 'v dataframe \<Rightarrow> 'v dataframe \<Rightarrow> 'v dataframe" where
  "concat_frames nan a b =
     (let w = max (df_columns a) (df_columns b)
      in \<lparr>df_index = df_index a @ df_index b,
          df_columns = w,
          df_rows = map (pad_row nan w) (df_rows a @ df_rows b)\<rparr>)"

text \<open>
  \<^verbatim>\<open>np.array(df.loc[labels,])\<close>: for each label in turn, the rows carrying that label.
  A label that is missing from the index raises KeyError (pandas 1.0 and later).
\<close>

definition rows_labelled :: "'v dataframe \<Rightarrow> string \<Rightarrow> 'v matrix" where
  "rows_labelled df l = map snd (filter (\<lambda>(i, r). i = l) (zip (df_index df) (df_rows df)))"

definition loc :: "'v dataframe \<Rightarrow> string list \<Rightarrow> error + 'v matrix" where
  "loc df labels =
     (case filter (\<lambda>l. l \<notin> set (df_index df)) labels of
        [] \<Rightarrow> Inr (concat (map (rows_labelled df) labels))
      | l # _ \<Rightarrow> Inl (KeyError l))"

subsection \<open>The configuration\<close>

text \<open>
  \<^verbatim>\<open>FindLatentRepresentationsConfig\<close>, field by field. The float-valued hyperparameters
  are carried as reals and only handed on to the trainer. \<open>n_nodes\<close> and \<open>output_dir\<close> are
  the attributes the code adds to the object at run time; they are absent before that.
\<close>

record config =
  input_hdf5_path :: string
  output_hdf5_path :: string
  sample_name :: string
  annotation :: "string option"
  type :: "string option"
  epochs :: int
  feat_hidden1 :: int
  feat_hidden2 :: int
  feat_cell :: int
  gcn_hidden1 :: int
  gcn_hidden2 :: int
  p_drop :: real
  gcn_lr :: real
  gcn_decay :: real
  n_neighbors :: int
  label_w :: real
  rec_w :: real
  input_pca :: bool
  n_comps :: int
  weighted_adj :: bool
  nheads :: int
  var :: bool
  convergence_threshold :: real
  hierarchically :: bool
  n_nodes :: "nat option"
  output_dir :: "string option"

text \<open>The defaults of the dataclass (and of the command line) for the three mandatory fields.\<close>

definition default_config :: "string \<Rightarrow> string \<Rightarrow> string \<Rightarrow> config" where
  "default_config inp outp name = \<lparr>
     input_hdf5_path = inp, output_hdf5_path = outp, sample_name = name,
     annotation = None, type = None,
     epochs = 300, feat_hidden1 = 256, feat_hidden2 = 128, feat_cell = 3000,
     gcn_hidden1 = 64, gcn_hidden2 = 30, p_drop = 1 / 10, gcn_lr = 1 / 1000,
     gcn_decay = 1 / 100, n_neighbors = 11, label_w = 1, rec_w = 1,
     input_pca = True, n_comps = 300, weighted_adj = False, nheads = 3, var = False,
     convergence_threshold = 1 / 10000, hierarchically = False,
     n_nodes = None, output_dir = None\<rparr>"

subsection \<open>The collaborators\<close>

text \<open>
  What a call of \<^verbatim>\<open>adata.write(path)\<close> can do: write the whole file, fail before the
  file at the path is touched, or fail after it has been opened for writing.
\<close>

datatype write_outcome = Written | Refused error | Interrupted error

text \<open>
  The routines of other packages, as parameters. \<open>'g\<close> is the graph structure the adjacency
  builder returns, \<open>'n\<close> the neighbour graph of scanpy. \<open>Model_Train\<close> stands for the
  construction of the trainer, \<^verbatim>\<open>run_train()\<close> and \<^verbatim>\<open>get_latent()\<close> together;
  \<open>LabelEncoder_fit_transform\<close> for \<^verbatim>\<open>le.fit\<close> and \<^verbatim>\<open>le.transform\<close> on one column.
  \<open>nan\<close> is the float NaN.
\<close>

record ('v, 'g, 'n) libs =
  Path_parent :: "string \<Rightarrow> string"
  Path_mkdir :: "string \<Rightarrow> error option"
  sc_read_h5ad :: "string \<Rightarrow> error + 'v adata"
  var_names_make_unique :: "string list \<Rightarrow> string list"
  LabelEncoder_fit_transform :: "obs_val list \<Rightarrow> error + int list"
  sc_pp_highly_variable_genes :: "string option \<Rightarrow> int \<Rightarrow> 'v adata \<Rightarrow> error + bool list"
  sc_pp_normalize_total :: "'v adata \<Rightarrow> error + 'v matrix"
  sc_pp_log1p :: "'v adata \<Rightarrow> error + 'v matrix"
  sc_pp_scale :: "'v adata \<Rightarrow> error + 'v matrix"
  Construct_Adjacency_Matrix :: "'v adata \<Rightarrow> config \<Rightarrow> error + 'g"
  sc_pp_pca :: "'v matrix \<Rightarrow> int \<Rightarrow> error + 'v matrix"
  Model_Train :: "'v matrix \<Rightarrow> 'g \<Rightarrow> config \<Rightarrow> int list option \<Rightarrow> error + 'v matrix"
  sc_tl_pca :: "'v adata \<Rightarrow> error + 'v matrix"
  sc_pp_neighbors :: "int \<Rightarrow> 'v matrix \<Rightarrow> error + 'n"
  sc_tl_umap :: "'n \<Rightarrow> error + 'v matrix"
  adata_write :: "string \<Rightarrow> 'v adata \<Rightarrow> write_outcome"
  nan :: 'v

subsection \<open>State, effects and exceptions\<close>

text \<open>
  The calls whose occurrence or arguments the specification speaks about are recorded, in
  order, with what they were given: the gene selection (flavor, \<^verbatim>\<open>n_top_genes\<close>,
  dataset), the adjacency builder (dataset), the trainer (feature matrix, the configuration
  as it is at the call, label vector, the \<^verbatim>\<open>verbose\<close> tag), \<^verbatim>\<open>sc.tl.pca\<close> (dataset),
  the creation of the output directory and the write of the output file.
\<close>

datatype 'v event =
    Ev_mkdir string
  | Ev_highly_variable_genes "string option" int "'v adata"
  | Ev_adjacency "'v adata"
  | Ev_train "'v matrix" config "int list option" obs_val
  | Ev_tl_pca "'v adata"
  | Ev_write string "'v adata"

text \<open>A file on disk holds a complete dataset or the beginning of one.\<close>

datatype 'v stored = Complete "'v adata" | Partial

text \<open>
  The state the driver works on: the configuration object \<^verbatim>\<open>args\<close> (shared with every
  finder as \<^verbatim>\<open>self.Params\<close>, and mutated), the record of calls, and the files.
\<close>

record 'v world =
  args :: config
  trace :: "'v event list"
  files :: "string \<Rightarrow> 'v stored option"

text \<open>
  A statement takes the state and gives a value or an exception, with the state it leaves
  behind: what an exception interrupts stays done.
\<close>

type_synonym ('v, 'a) stmt = "'v world \<Rightarrow> (error + 'a) \<times> 'v world"

definition returnE :: "'a \<Rightarrow> ('v, 'a) stmt" where
  "returnE x s = (Inr x, s)"

definition lift :: "error + 'a \<Rightarrow> ('v, 'a) stmt" where
  "lift r s = (r, s)"

definition bindE :: "('v, 'a) stmt \<Rightarrow> ('a \<Rightarrow> ('v, 'b) stmt) \<Rightarrow> ('v, 'b) stmt" where
  "bindE m f s = (case m s of (Inl e, s') \<Rightarrow> (Inl e, s') | (Inr x, s') \<Rightarrow> f x s')"

definition get_args :: "('v, config) stmt" where
  "get_args s = (Inr (args s), s)"

definition modify_args :: "(config \<Rightarrow> config) \<Rightarrow> ('v, unit) stmt" where
  "modify_args f s = (Inr (), s\<lparr>args := f (args s)\<rparr>)"

definition record_call :: "'v event \<Rightarrow> ('v, unit) stmt" where
  "record_call e s = (Inr (), s\<lparr>trace := trace s @ [e]\<rparr>)"

subsection \<open>The class \<^verbatim>\<open>Latent_Representation_Finder\<close>\<close>

text \<open>
  A finder is its own copy of the dataset (\<^verbatim>\<open>self.adata\<close>); \<^verbatim>\<open>self.Params\<close> is the
  shared configuration in the state. The constructor (lines 90 to 103) reads the layer named
  by \<^verbatim>\<open>Params.type\<close> in both branches.
\<close>

definition Latent_Representation_Finder ::
  "('v, 'g, 'n) libs \<Rightarrow> 'v adata \<Rightarrow> ('v, 'v adata) stmt" where
  "Latent_Representation_Finder L adata =
     bindE get_args (\<lambda>Params.
       if type Params = Some ''count'' \<or> type Params = Some ''counts'' then
         bindE (lift (layers_getitem adata (type Params))) (\<lambda>m.
         let a1 = adata\<lparr>X := m\<rparr> in
         bindE (record_call
                 (Ev_highly_variable_genes (Some ''seurat_v3'') (feat_cell Params) a1)) (\<lambda>_.
         bindE (lift (sc_pp_highly_variable_genes L (Some ''seurat_v3'')
                 (feat_cell Params) a1)) (\<lambda>hv.
         let a2 = a1\<lparr>highly_variable := Some hv\<rparr> in
         bindE (lift (sc_pp_normalize_total L a2)) (\<lambda>x3.
         bindE (lift (sc_pp_log1p L (a2\<lparr>X := x3\<rparr>))) (\<lambda>x4.
         bindE (lift (sc_pp_scale L (a2\<lparr>X := x4\<rparr>))) (\<lambda>x5.
         returnE (a2\<lparr>X := x5\<rparr>)))))))
       else
         bindE (lift (layers_getitem adata (type Params))) (\<lambda>m.
         let a1 = adata\<lparr>X := m\<rparr> in
         bindE (record_call (Ev_highly_variable_genes None (feat_cell Params) a1)) (\<lambda>_.
         bindE (lift (sc_pp_highly_variable_genes L None (feat_cell Params) a1)) (\<lambda>hv.
         returnE (a1\<lparr>highly_variable := Some hv\<rparr>)))))"

text \<open>
  \<^verbatim>\<open>self.adata[:, self.adata.var.highly_variable].X\<close>: the columns of \<open>X\<close> that the gene
  selection marked.
\<close>

definition highly_variable_X :: "'v adata \<Rightarrow> error + 'v matrix" where
  "highly_variable_X a =
     (case highly_variable a of
        None \<Rightarrow> Inl (AttributeError ''highly_variable'')
      | Some hv \<Rightarrow> Inr (map (select_mask hv) (X a)))"

text \<open>
  \<^verbatim>\<open>Run_GNN_VAE\<close> (lines 105 to 125). It overwrites \<^verbatim>\<open>Params.n_nodes\<close> and
  \<^verbatim>\<open>Params.feat_cell\<close> with the shape of the feature matrix before it trains.
\<close>

definition Run_GNN_VAE ::
  "('v, 'g, 'n) libs \<Rightarrow> 'v adata \<Rightarrow> int list option \<Rightarrow> obs_val \<Rightarrow> ('v, 'v matrix) stmt" where
  "Run_GNN_VAE L self label verbose =
     bindE get_args (\<lambda>Params.
     bindE (record_call (Ev_adjacency self)) (\<lambda>_.
     bindE (lift (Construct_Adjacency_Matrix L self Params)) (\<lambda>graph_dict.
     bindE (lift (highly_variable_X self)) (\<lambda>node_X0.
     bindE (if input_pca Params then lift (sc_pp_pca L node_X0 (n_comps Params))
            else returnE node_X0) (\<lambda>node_X.
     bindE (modify_args (\<lambda>P. P\<lparr>n_nodes := Some (shape0 node_X)\<rparr>)) (\<lambda>_.
     bindE (modify_args (\<lambda>P. P\<lparr>feat_cell := int (shape1 node_X)\<rparr>)) (\<lambda>_.
     bindE get_args (\<lambda>Params'.
     bindE (record_call (Ev_train node_X Params' label verbose)) (\<lambda>_.
     lift (Model_Train L node_X graph_dict Params' label))))))))))"

text \<open>
  \<^verbatim>\<open>Run_PCA\<close> (lines 127 to 129): \<^verbatim>\<open>sc.tl.pca\<close> stores its matrix as
  \<^verbatim>\<open>obsm['X_pca']\<close> of the finder's dataset; the result is the slice \<^verbatim>\<open>[:, 0:n_comps]\<close>
  of that matrix. The finder is returned with its updated dataset.
\<close>

definition Run_PCA ::
  "('v, 'g, 'n) libs \<Rightarrow> 'v adata \<Rightarrow> ('v, 'v matrix \<times> 'v adata) stmt" where
  "Run_PCA L self =
     bindE (record_call (Ev_tl_pca self)) (\<lambda>_.
     bindE (lift (sc_tl_pca L self)) (\<lambda>X_pca.
     bindE (lift (set_obsm ''X_pca'' X_pca self)) (\<lambda>self'.
     bindE get_args (\<lambda>Params.
     returnE (map (py_slice_to (n_comps Params)) X_pca, self')))))"

subsection \<open>The driver \<^verbatim>\<open>run_find_latent_representation\<close>\<close>

text \<open>
  Lines 144 to 146: the rows with a null annotation are removed, the values of the
  annotation are counted on what remains, and the rows whose value occurs fewer than 30 times
  are removed.
\<close>

definition remove_sparse_annotations ::
  "string option \<Rightarrow> 'v adata \<Rightarrow> error + 'v adata" where
  "remove_sparse_annotations key adata =
     (case obs_getitem adata key of
        Inl e \<Rightarrow> Inl e
      | Inr c \<Rightarrow>
          let adata1 = subset_obs (map (\<lambda>v. v \<noteq> Null) c) adata in
          (case obs_getitem adata1 key of
             Inl e \<Rightarrow> Inl e
           | Inr c1 \<Rightarrow>
               let num = value_counts c1 in
               (case obs_getitem adata1 key of
                  Inl e \<Rightarrow> Inl e
                | Inr c2 \<Rightarrow>
                    Inr (subset_obs
                          (map (\<lambda>v. v \<in> set (index_at_least 30 num)) c2) adata1))))"

text \<open>Lines 148 to 151: the integer codes of the annotation, stored as a column and returned.\<close>

definition encode_labels ::
  "('v, 'g, 'n) libs \<Rightarrow> string option \<Rightarrow> 'v adata \<Rightarrow> error + ('v adata \<times> int list)" where
  "encode_labels L key adata =
     (case obs_getitem adata key of
        Inl e \<Rightarrow> Inl e
      | Inr c \<Rightarrow>
          (case LabelEncoder_fit_transform L c of
             Inl e \<Rightarrow> Inl e
           | Inr codes \<Rightarrow>
               (case set_obs ''categorical_label'' (map Num codes) adata of
                  Inl e \<Rightarrow> Inl e
                | Inr adata' \<Rightarrow> Inr (adata', codes))))"

text \<open>
  Lines 164 to 166, the body of the loop over the two embedding names: the neighbour graph
  of the embedding, its UMAP (stored by scanpy as \<^verbatim>\<open>obsm['X_umap']\<close>), and the copy under
  the embedding's own key.
\<close>

definition umap_of ::
  "('v, 'g, 'n) libs \<Rightarrow> string \<Rightarrow> 'v adata \<Rightarrow> error + 'v adata" where
  "umap_of L name adata =
     (case obsm_getitem adata name of
        Inl e \<Rightarrow> Inl e
      | Inr rep \<Rightarrow>
          (case sc_pp_neighbors L 10 rep of
             Inl e \<Rightarrow> Inl e
           | Inr nb \<Rightarrow>
               (case sc_tl_umap L nb of
                  Inl e \<Rightarrow> Inl e
                | Inr u \<Rightarrow>
                    (case set_obsm ''X_umap'' u adata of
                       Inl e \<Rightarrow> Inl e
                     | Inr adata1 \<Rightarrow>
                         (case obsm_getitem adata1 ''X_umap'' of
                            Inl e \<Rightarrow> Inl e
                          | Inr u' \<Rightarrow> set_obsm (''X_umap_'' @ name) u' adata1)))))"

fun umap_loop ::
  "('v, 'g, 'n) libs \<Rightarrow> string list \<Rightarrow> 'v adata \<Rightarrow> error + 'v adata" where
  "umap_loop L [] adata = Inr adata"
| "umap_loop L (name # names) adata =
     (case umap_of L name adata of
        Inl e \<Rightarrow> Inl e
      | Inr adata' \<Rightarrow> umap_loop L names adata')"

text \<open>
  Lines 176 to 186, the first half of the body of the loop over the annotation values: the
  rows of one annotation value, their finder, the PCA embedding, and the GNN-VAE embedding
  unless the group has no more rows than \<^verbatim>\<open>n_comps\<close>. The result is the subset with
  \<^verbatim>\<open>latent_GVAE_part\<close> and \<^verbatim>\<open>latent_PCA_part\<close> as matrices.
\<close>

definition group_latents ::
  "('v, 'g, 'n) libs \<Rightarrow> obs_val \<Rightarrow> 'v adata \<Rightarrow>
   ('v, 'v adata \<times> 'v matrix \<times> 'v matrix) stmt" where
  "group_latents L ct adata =
     bindE get_args (\<lambda>P0.
     bindE (lift (obs_getitem adata (annotation P0))) (\<lambda>c.
     let adata_part = subset_obs (map (\<lambda>v. v = ct) c) adata in
     bindE (Latent_Representation_Finder L adata_part) (\<lambda>latent_rep.
     bindE (Run_PCA L latent_rep) (\<lambda>(pca, latent_rep').
     bindE get_args (\<lambda>P1.
     bindE (if int (n_obs adata_part) \<le> n_comps P1 then returnE pca
            else Run_GNN_VAE L latent_rep' None ct) (\<lambda>gvae.
     returnE (adata_part, gvae, pca)))))))"

text \<open>
  Lines 176 to 197, the whole body. The loop carries the dataset and the two accumulated
  frames. After the first half, the two matrices become frames indexed by the names of the
  subset and are appended to the accumulated frames. The two assignments to
  \<^verbatim>\<open>adata.obsm\<close> (lines 196 and 197) stand inside the loop, after the reset of
  \<^verbatim>\<open>args.feat_cell\<close> (line 194).
\<close>

definition group_iteration ::
  "('v, 'g, 'n) libs \<Rightarrow> int \<Rightarrow> obs_val \<Rightarrow>
   'v adata \<times> 'v dataframe \<times> 'v dataframe \<Rightarrow>
   ('v, 'v adata \<times> 'v dataframe \<times> 'v dataframe) stmt" where
  "group_iteration L num_features ct acc =
     (case acc of (adata, GVAE_all, PCA_all) \<Rightarrow>
     bindE (group_latents L ct adata) (\<lambda>(adata_part, gvae, pca).
     bindE (lift (DataFrame_indexed (obs_names adata_part) gvae)) (\<lambda>latent_GVAE_part.
     bindE (lift (DataFrame_indexed (obs_names adata_part) pca)) (\<lambda>latent_PCA_part.
     let GVAE_all' = concat_frames (nan L) GVAE_all latent_GVAE_part;
         PCA_all' = concat_frames (nan L) PCA_all latent_PCA_part in
     bindE (modify_args (\<lambda>P. P\<lparr>feat_cell := num_features\<rparr>)) (\<lambda>_.
     bindE (lift (loc GVAE_all' (obs_names adata))) (\<lambda>g.
     bindE (lift (set_obsm ''latent_GVAE_hierarchy'' g adata)) (\<lambda>adata1.
     bindE (lift (loc PCA_all' (obs_names adata1))) (\<lambda>p.
     bindE (lift (set_obsm ''latent_PCA_hierarchy'' p adata1)) (\<lambda>adata2.
     returnE (adata2, GVAE_all', PCA_all'))))))))))"

fun for_each_group ::
  "('v, 'g, 'n) libs \<Rightarrow> int \<Rightarrow> obs_val list \<Rightarrow>
   'v adata \<times> 'v dataframe \<times> 'v dataframe \<Rightarrow>
   ('v, 'v adata \<times> 'v dataframe \<times> 'v dataframe) stmt" where
  "for_each_group L num_features [] acc s = (Inr acc, s)"
| "for_each_group L num_features (ct # cts) acc s =
     (case group_iteration L num_features ct acc s of
        (Inl e, s') \<Rightarrow> (Inl e, s')
      | (Inr acc', s') \<Rightarrow> for_each_group L num_features cts acc' s')"

text \<open>
  Lines 170 to 197: the hierarchical pass, taken when an annotation is given and
  \<^verbatim>\<open>args.hierarchically\<close> is set. The values to visit are read once, before the loop.
\<close>

definition hierarchical_pass ::
  "('v, 'g, 'n) libs \<Rightarrow> int \<Rightarrow> 'v adata \<Rightarrow> ('v, 'v adata) stmt" where
  "hierarchical_pass L num_features adata =
     bindE get_args (\<lambda>P.
     if annotation P \<noteq> None \<and> hierarchically P then
       bindE (lift (obs_getitem adata (annotation P))) (\<lambda>c.
       bindE (for_each_group L num_features (unique c)
               (adata, DataFrame_empty, DataFrame_empty)) (\<lambda>(adata', _).
       returnE adata'))
     else returnE adata)"

text \<open>
  Line 135 and line 199: the two statements that touch the file system. The output file is
  written by one call on the configured path itself.
\<close>

definition make_output_dir :: "('v, 'g, 'n) libs \<Rightarrow> string \<Rightarrow> ('v, unit) stmt" where
  "make_output_dir L dir =
     bindE (record_call (Ev_mkdir dir)) (\<lambda>_.
     lift (case Path_mkdir L dir of None \<Rightarrow> Inr () | Some e \<Rightarrow> Inl e))"

definition write_h5ad :: "('v, 'g, 'n) libs \<Rightarrow> string \<Rightarrow> 'v adata \<Rightarrow> ('v, unit) stmt" where
  "write_h5ad L path adata s =
     (let s1 = s\<lparr>trace := trace s @ [Ev_write path adata]\<rparr> in
      case adata_write L path adata of
        Written \<Rightarrow> (Inr (), s1\<lparr>files := (files s1)(path \<mapsto> Complete adata)\<rparr>)
      | Refused e \<Rightarrow> (Inl e, s1)
      | Interrupted e \<Rightarrow> (Inl e, s1\<lparr>files := (files s1)(path \<mapsto> Partial)\<rparr>))"

text \<open>
  Lines 155 to 157: the finder for the whole dataset, its GNN-VAE embedding, then its PCA
  embedding.
\<close>

definition whole_latents ::
  "('v, 'g, 'n) libs \<Rightarrow> 'v adata \<Rightarrow> int list option \<Rightarrow> ('v, 'v matrix \<times> 'v matrix) stmt" where
  "whole_latents L adata label =
     bindE (Latent_Representation_Finder L adata) (\<lambda>latent_rep.
     bindE (Run_GNN_VAE L latent_rep label (Str ''whole ST data'')) (\<lambda>latent_GVAE.
     bindE (Run_PCA L latent_rep) (\<lambda>(latent_PCA, _).
     returnE (latent_GVAE, latent_PCA))))"

text \<open>
  Lines 142 to 153: with an annotation, the sparse annotations are removed and the labels
  encoded; without one there is no label vector.
\<close>

definition load_annotation ::
  "('v, 'g, 'n) libs \<Rightarrow> string option \<Rightarrow> 'v adata \<Rightarrow>
   error + ('v adata \<times> int list option)" where
  "load_annotation L key adata =
     (if key \<noteq> None then
        (case remove_sparse_annotations key adata of
           Inl e \<Rightarrow> Inl e
         | Inr adata1 \<Rightarrow>
             (case encode_labels L key adata1 of
                Inl e \<Rightarrow> Inl e
              | Inr (adata2, codes) \<Rightarrow> Inr (adata2, Some codes)))
      else Inr (adata, None))"

text \<open>
  Lines 160 to 166: the two embeddings are attached to the dataset, then the loop over the
  two embedding names computes their UMAP projections.
\<close>

definition add_latents ::
  "('v, 'g, 'n) libs \<Rightarrow> 'v matrix \<Rightarrow> 'v matrix \<Rightarrow> 'v adata \<Rightarrow> error + 'v adata" where
  "add_latents L latent_GVAE latent_PCA adata =
     (case set_obsm ''latent_GVAE'' latent_GVAE adata of
        Inl e \<Rightarrow> Inl e
      | Inr adata3 \<Rightarrow>
          (case set_obsm ''latent_PCA'' latent_PCA adata3 of
             Inl e \<Rightarrow> Inl e
           | Inr adata4 \<Rightarrow> umap_loop L [''latent_GVAE'', ''latent_PCA''] adata4))"

text \<open>The driver, lines 132 to 199.\<close>

definition run_find_latent_representation :: "('v, 'g, 'n) libs \<Rightarrow> ('v, unit) stmt" where
  "run_find_latent_representation L =
     bindE get_args (\<lambda>args0.
     let num_features = feat_cell args0 in
     bindE (modify_args
             (\<lambda>P. P\<lparr>output_dir := Some (Path_parent L (output_hdf5_path P))\<rparr>)) (\<lambda>_.
     bindE (make_output_dir L (Path_parent L (output_hdf5_path args0))) (\<lambda>_.
     bindE (lift (sc_read_h5ad L (input_hdf5_path args0))) (\<lambda>adata_in.
     let adata0 = adata_in\<lparr>var_names := var_names_make_unique L (var_names adata_in)\<rparr> in
     bindE (lift (load_annotation L (annotation args0) adata0)) (\<lambda>(adata, label).
     bindE (whole_latents L adata label) (\<lambda>(latent_GVAE, latent_PCA).
     bindE (lift (add_latents L latent_GVAE latent_PCA adata)) (\<lambda>adata5.
     bindE (hierarchical_pass L num_features adata5) (\<lambda>adata6.
     bindE get_args (\<lambda>args1.
     write_h5ad L (output_hdf5_path args1) adata6)))))))))"

subsection \<open>What a run changes in the configuration\<close>

text \<open>
  Two configurations that agree on every field but \<^verbatim>\<open>n_nodes\<close> and \<^verbatim>\<open>feat_cell\<close>,
  the two fields \<^verbatim>\<open>Run_GNN_VAE\<close> and the hierarchical loop assign.
\<close>

definition shape_fields_only :: "config \<Rightarrow> config \<Rightarrow> bool" where
  "shape_fields_only P P' \<longleftrightarrow> P' = P\<lparr>n_nodes := n_nodes P', feat_cell := feat_cell P'\<rparr>"

subsection \<open>Reading the record of calls\<close>

text \<open>
  The \<^verbatim>\<open>n_top_genes\<close> of the gene selections, and what the trainer was given (the
  \<^verbatim>\<open>verbose\<close> tag, the label vector, the feature matrix and the configuration), each in
  the order of the calls.
\<close>

fun hvg_n_top_genes :: "'v event \<Rightarrow> int list" where
  "hvg_n_top_genes (Ev_highly_variable_genes f n a) = [n]"
| "hvg_n_top_genes _ = []"

definition hvg_calls :: "'v event list \<Rightarrow> int list" where
  "hvg_calls tr = concat (map hvg_n_top_genes tr)"

fun train_call :: "'v event \<Rightarrow> (obs_val \<times> int list option \<times> 'v matrix \<times> config) list" where
  "train_call (Ev_train m P l v) = [(v, l, m, P)]"
| "train_call _ = []"

definition train_calls ::
  "'v event list \<Rightarrow> (obs_val \<times> int list option \<times> 'v matrix \<times> config) list" where
  "train_calls tr = concat (map train_call tr)"

text \<open>The calls made by \<^verbatim>\<open>Run_GNN_VAE\<close>: the adjacency builder and the trainer.\<close>

fun gnn_vae_event :: "'v event \<Rightarrow> bool" where
  "gnn_vae_event (Ev_adjacency a) = True"
| "gnn_vae_event (Ev_train m P l v) = True"
| "gnn_vae_event _ = False"

definition gnn_vae_events :: "'v event list \<Rightarrow> 'v event list" where
  "gnn_vae_events tr = filter gnn_vae_event tr"

text \<open>The datasets given to \<^verbatim>\<open>sc.tl.pca\<close>, and the paths and datasets of the writes.\<close>

fun tl_pca_call :: "'v event \<Rightarrow> 'v adata list" where
  "tl_pca_call (Ev_tl_pca a) = [a]"
| "tl_pca_call _ = []"

definition tl_pca_calls :: "'v event list \<Rightarrow> 'v adata list" where
  "tl_pca_calls tr = concat (map tl_pca_call tr)"

fun write_call :: "'v event \<Rightarrow> (string \<times> 'v adata) list" where
  "write_call (Ev_write p a) = [(p, a)]"
| "write_call _ = []"

definition write_calls :: "'v event list \<Rightarrow> (string \<times> 'v adata) list" where
  "write_calls tr = concat (map write_call tr)"

subsection \<open>Example data\<close>

text \<open>
  Small concrete collaborators and datasets, on which the definitions above can be run.
  Every routine of \<open>ex_libs\<close> succeeds: the gene selection keeps both genes, the
  decompositions return the matrix they are given (cut to the requested width), the trainer
  returns its feature matrix. Each cell of \<open>ex_adata\<close> has two genes, a layer
  \<^verbatim>\<open>count\<close> and an annotation column \<^verbatim>\<open>layer\<close>.
\<close>

definition ex_adata :: "string list \<Rightarrow> obs_val list \<Rightarrow> int adata" where
  "ex_adata names ann = \<lparr>obs_names = names, var_names = [''g1'', ''g2''],
     obs = [(''layer'', ann)], X = map (\<lambda>_. [1, 2]) names,
     layers = [(''count'', map (\<lambda>_. [3, 4]) names)], obsm = [], highly_variable = None\<rparr>"

definition ex_libs :: "int adata \<Rightarrow> (int, unit, int matrix) libs" where
  "ex_libs D = \<lparr>Path_parent = (\<lambda>p. ''out''), Path_mkdir = (\<lambda>d. None),
     sc_read_h5ad = (\<lambda>p. Inr D), var_names_make_unique = (\<lambda>ns. ns),
     LabelEncoder_fit_transform = (\<lambda>c. Inr (map (\<lambda>v. 0) c)),
     sc_pp_highly_variable_genes = (\<lambda>f n a. Inr [True, True]),
     sc_pp_normalize_total = (\<lambda>a. Inr (X a)), sc_pp_log1p = (\<lambda>a. Inr (X a)),
     sc_pp_scale = (\<lambda>a. Inr (X a)),
     Construct_Adjacency_Matrix = (\<lambda>a P. Inr ()),
     sc_pp_pca = (\<lambda>m k. Inr (map (take (nat k)) m)),
     Model_Train = (\<lambda>m g P l. Inr m),
     sc_tl_pca = (\<lambda>a. Inr (X a)),
     sc_pp_neighbors = (\<lambda>k m. Inr m), sc_tl_umap = (\<lambda>nb. Inr nb),
     adata_write = (\<lambda>p a. Written), nan = 0\<rparr>"

definition ex_world :: "config \<Rightarrow> int world" where
  "ex_world cfg = \<lparr>args = cfg, trace = [], files = (\<lambda>p. None)\<rparr>"

text \<open>The configuration of a hierarchical run on the layer \<^verbatim>\<open>count\<close>.\<close>

definition ex_config :: config where
  "ex_config = (default_config ''in.h5ad'' ''out/res.h5ad'' ''sample'')
     \<lparr>annotation := Some ''layer'', type := Some ''count'', n_comps := 1,
      hierarchically := True\<rparr>"

text \<open>Sixty cells with distinct names, thirty in each of two annotation groups.\<close>

definition names60 :: "string list" where
  "names60 =
     map (\<lambda>c. [c]) ''ABCDEFGHIJKLMNOPQRSTUVWXYZabcdefghijklmnopqrstuvwxyz01234567''"

definition two_groups :: "int adata" where
  "two_groups = ex_adata names60 (replicate 30 (Str ''A'') @ replicate 30 (Str ''B''))"

text \<open>Two cells without annotation values of interest, for runs without an annotation.\<close>

definition two_cells :: "int adata" where
  "two_cells = ex_adata [''c1'', ''c2''] [Str ''A'', Str ''B'']"

section \<open>Properties\<close>

subsection \<open>Sequencing of statements\<close>

lemma bindE_eq_Inr:
  "bindE m f s = (Inr y, s') \<longleftrightarrow> (\<exists>x s1. m s = (Inr x, s1) \<and> f x s1 = (Inr y, s'))"
  by (auto simp: bindE_def split: prod.splits sum.splits)

lemma bindE_eq_Inl:
  "bindE m f s = (Inl e, s') \<longleftrightarrow>
     m s = (Inl e, s') \<or> (\<exists>x s1. m s = (Inr x, s1) \<and> f x s1 = (Inl e, s'))"
  by (auto simp: bindE_def split: prod.splits sum.splits)

subsection \<open>The data-type tag\<close>

lemma finder_type_None:
  "type (args s) = None \<Longrightarrow>
     Latent_Representation_Finder L adata s = (Inl (KeyError ''None''), s)"
  by (simp add: Latent_Representation_Finder_def bindE_def get_args_def lift_def
        layers_getitem_def)

text \<open>
  Claim C8. The claim: the option \<^verbatim>\<open>type\<close> is optional, and with \<^verbatim>\<open>type\<close> unset the
  pipeline runs to completion under the generic preprocessing policy. What the code does:
  \<^verbatim>\<open>type\<close> defaults to \<^verbatim>\<open>None\<close>, yet the generic branch of the constructor reads
  \<^verbatim>\<open>adata.layers[None]\<close>; the constructor of every finder raises KeyError, and no run with
  \<^verbatim>\<open>type\<close> unset completes, for any dataset and any behaviour of the collaborators.
\<close>

theorem type_None_never_completes:
  "type (default_config inp outp name) = None \<and>
   fst (Latent_Representation_Finder L adata (s\<lparr>args := (args s)\<lparr>type := None\<rparr>\<rparr>))
     = Inl (KeyError ''None'') \<and>
   fst (run_find_latent_representation L (s\<lparr>args := (args s)\<lparr>type := None\<rparr>\<rparr>)) \<noteq> Inr ()"
proof -
  let ?s = "s\<lparr>args := (args s)\<lparr>type := None\<rparr>\<rparr>"
  have a: "type (default_config inp outp name) = None"
    by (simp add: default_config_def)
  have b: "fst (Latent_Representation_Finder L adata ?s) = Inl (KeyError ''None'')"
    by (simp add: finder_type_None)
  have c: "fst (run_find_latent_representation L ?s) \<noteq> Inr ()"
  proof
    assume "fst (run_find_latent_representation L ?s) = Inr ()"
    then obtain s' where r: "run_find_latent_representation L ?s = (Inr (), s')"
      by (cases "run_find_latent_representation L ?s") auto
    from r show False
      unfolding run_find_latent_representation_def whole_latents_def
      by (auto simp: bindE_eq_Inr get_args_def modify_args_def finder_type_None
            make_output_dir_def record_call_def lift_def Let_def)
  qed
  from a b c show ?thesis by blast
qed

theorem type_None_never_completes_witness:
  "type (args (ex_world (default_config ''in.h5ad'' ''out/res.h5ad'' ''sample''))) = None \<and>
   fst (run_find_latent_representation (ex_libs two_cells)
         (ex_world (default_config ''in.h5ad'' ''out/res.h5ad'' ''sample''))) \<noteq> Inr ()"
  using type_None_never_completes
    [of "''in.h5ad''" "''out/res.h5ad''" "''sample''" "ex_libs two_cells" two_cells
        "ex_world (default_config ''in.h5ad'' ''out/res.h5ad'' ''sample'')"]
  by (simp add: ex_world_def default_config_def)

subsection \<open>Unfolding and evaluation\<close>

lemmas stmt_defs = bindE_def returnE_def lift_def get_args_def modify_args_def record_call_def

lemmas ex_defs = ex_libs_def ex_adata_def ex_world_def ex_config_def default_config_def
  two_cells_def

subsection \<open>The PCA embedding of a finder\<close>

lemma Run_PCA_result:
  assumes "fst (Run_PCA L self s) = Inr (m, self')"
  shows "\<exists>X_pca. sc_tl_pca L self = Inr X_pca \<and>
           m = map (py_slice_to (n_comps (args s))) X_pca \<and>
           set_obsm ''X_pca'' X_pca self = Inr self'"
  using assms
  by (auto simp: Run_PCA_def stmt_defs split: sum.splits)

text \<open>
  Claim C4, as stated: \<^verbatim>\<open>Run_PCA\<close> returns a matrix with exactly \<^verbatim>\<open>n_comps\<close> columns.
  It fails where \<^verbatim>\<open>sc.tl.pca\<close> produced fewer columns than \<^verbatim>\<open>n_comps\<close>: the slice
  \<^verbatim>\<open>[:, 0:n_comps]\<close> cuts, it never pads. Here \<^verbatim>\<open>n_comps\<close> is 3 and the matrix of
  \<^verbatim>\<open>sc.tl.pca\<close> has two columns; so has the result.
\<close>

theorem Run_PCA_exact_width_counterexample:
  "n_comps (args (ex_world (ex_config\<lparr>n_comps := 3\<rparr>))) = 3 \<and>
   fst (Run_PCA (ex_libs two_cells) two_cells (ex_world (ex_config\<lparr>n_comps := 3\<rparr>))) =
     Inr ([[1, 2], [1, 2]], two_cells\<lparr>obsm := [(''X_pca'', [[1, 2], [1, 2]])]\<rparr>) \<and>
   shape1 [[1, 2], [1, 2 :: int]] = 2"
  by (simp add: Run_PCA_def stmt_defs ex_defs set_obsm_def shape0_def shape1_def n_obs_def
        py_slice_to_def)

text \<open>
  Claim C4, amended: when \<^verbatim>\<open>Run_PCA\<close> returns, with \<^verbatim>\<open>n_comps\<close> not negative, its
  result has the rows of the matrix \<^verbatim>\<open>X_pca\<close> that \<^verbatim>\<open>sc.tl.pca\<close> produced, each cut to
  its first \<^verbatim>\<open>n_comps\<close> entries: a row has \<^verbatim>\<open>min(n_comps, width of X_pca)\<close> columns,
  which is \<^verbatim>\<open>n_comps\<close> only when \<^verbatim>\<open>X_pca\<close> is at least that wide.
\<close>

theorem Run_PCA_columns:
  assumes "fst (Run_PCA L self s) = Inr (m, self')" and "0 \<le> n_comps (args s)"
  shows "\<exists>X_pca. sc_tl_pca L self = Inr X_pca \<and> length m = length X_pca \<and>
           (\<forall>i < length m.
              m ! i = take (nat (n_comps (args s))) (X_pca ! i) \<and>
              length (m ! i) = min (nat (n_comps (args s))) (length (X_pca ! i)))"
proof -
  from Run_PCA_result [OF assms(1)] obtain X_pca where
    p: "sc_tl_pca L self = Inr X_pca" and
    m: "m = map (py_slice_to (n_comps (args s))) X_pca"
    by blast
  from m assms(2) have "\<forall>i < length m.
      m ! i = take (nat (n_comps (args s))) (X_pca ! i) \<and>
      length (m ! i) = min (nat (n_comps (args s))) (length (X_pca ! i))"
    by (auto simp: py_slice_to_def)
  with p m show ?thesis by (simp add: min.commute)
qed

theorem Run_PCA_columns_witness:
  "fst (Run_PCA (ex_libs two_cells) two_cells (ex_world ex_config)) =
     Inr ([[1], [1]], two_cells\<lparr>obsm := [(''X_pca'', [[1, 2], [1, 2]])]\<rparr>) \<and>
   0 \<le> n_comps (args (ex_world ex_config)) \<and>
   sc_tl_pca (ex_libs two_cells) two_cells = Inr [[1, 2], [1, 2]] \<and>
   length ([[1], [1 :: int]] ! 0) =
     min (nat (n_comps (args (ex_world ex_config)))) (length ([[1, 2], [1, 2 :: int]] ! 0))"
proof -
  have r: "fst (Run_PCA (ex_libs two_cells) two_cells (ex_world ex_config)) =
     Inr ([[1], [1]], two_cells\<lparr>obsm := [(''X_pca'', [[1, 2], [1, 2]])]\<rparr>)"
    by (simp add: Run_PCA_def stmt_defs ex_defs set_obsm_def shape0_def n_obs_def
          py_slice_to_def)
  have n: "0 \<le> n_comps (args (ex_world ex_config))"
    by (simp add: ex_defs)
  have p: "sc_tl_pca (ex_libs two_cells) two_cells = Inr [[1, 2], [1, 2]]"
    by (simp add: ex_defs)
  from Run_PCA_columns [OF r n] p
  have "\<forall>i < length [[1], [1 :: int]].
          length ([[1], [1 :: int]] ! i) =
            min (nat (n_comps (args (ex_world ex_config))))
              (length ([[1, 2], [1, 2 :: int]] ! i))"
    by auto
  then have "length ([[1], [1 :: int]] ! 0) =
      min (nat (n_comps (args (ex_world ex_config)))) (length ([[1, 2], [1, 2 :: int]] ! 0))"
    by (metis length_greater_0_conv list.distinct(1))
  with r n p show ?thesis by blast
qed

subsection \<open>Symbolic execution of statements, and the calls a statement makes\<close>

lemma hvg_calls_simps [simp]:
  "hvg_calls [] = []"
  "hvg_calls (e # es) = hvg_n_top_genes e @ hvg_calls es"
  "hvg_calls (xs @ ys) = hvg_calls xs @ hvg_calls ys"
  by (simp_all add: hvg_calls_def)

lemma train_calls_simps [simp]:
  "train_calls [] = []"
  "train_calls (e # es) = train_call e @ train_calls es"
  "train_calls (xs @ ys) = train_calls xs @ train_calls ys"
  by (simp_all add: train_calls_def)

lemma tl_pca_calls_simps [simp]:
  "tl_pca_calls [] = []"
  "tl_pca_calls (e # es) = tl_pca_call e @ tl_pca_calls es"
  "tl_pca_calls (xs @ ys) = tl_pca_calls xs @ tl_pca_calls ys"
  by (simp_all add: tl_pca_calls_def)

lemma write_calls_simps [simp]:
  "write_calls [] = []"
  "write_calls (e # es) = write_call e @ write_calls es"
  "write_calls (xs @ ys) = write_calls xs @ write_calls ys"
  by (simp_all add: write_calls_def)

lemma exec_get_args: "bindE get_args f s = f (args s) s"
  by (simp add: stmt_defs)

lemma exec_returnE: "bindE (returnE x) f s = f x s"
  by (simp add: stmt_defs)

lemma exec_modify_args: "bindE (modify_args g) f s = f () (s\<lparr>args := g (args s)\<rparr>)"
  by (simp add: stmt_defs)

lemma exec_record_call:
  "bindE (record_call e) f s = f () (s\<lparr>trace := trace s @ [e]\<rparr>)"
  by (simp add: stmt_defs)

lemma exec_if:
  "bindE (if c then m1 else m2) f s = (if c then bindE m1 f s else bindE m2 f s)"
  by simp

lemma exec_lift:
  "bindE (lift x) f s = (r, s') \<longleftrightarrow>
     (\<exists>e. x = Inl e \<and> r = Inl e \<and> s' = s) \<or> (\<exists>v. x = Inr v \<and> f v s = (r, s'))"
  by (cases x) (auto simp: stmt_defs)

lemma exec_returnE_end: "returnE x s = (r, s') \<longleftrightarrow> r = Inr x \<and> s' = s"
  by (auto simp: returnE_def)

lemma exec_lift_end: "lift x s = (r, s') \<longleftrightarrow> r = x \<and> s' = s"
  by (auto simp: lift_def)

lemma bindE_iff:
  "bindE m f s = (r, s') \<longleftrightarrow>
     (\<exists>e. m s = (Inl e, s') \<and> r = Inl e) \<or> (\<exists>x s1. m s = (Inr x, s1) \<and> f x s1 = (r, s'))"
  by (auto simp: bindE_def split: prod.splits sum.splits)

lemma exec_lift_case:
  "bindE (lift x) f s = (case x of Inl e \<Rightarrow> (Inl e, s) | Inr v \<Rightarrow> f v s)"
  by (simp add: stmt_defs split: sum.splits)

lemmas exec_case = exec_get_args exec_returnE exec_modify_args exec_record_call exec_if
  exec_lift_case returnE_def lift_def Let_def

lemmas exec = exec_get_args exec_returnE exec_modify_args exec_record_call exec_if exec_lift
  exec_returnE_end exec_lift_end Let_def

lemmas exec_Finder = bindE_iff [of "Latent_Representation_Finder L a" for L a]
lemmas exec_Run_PCA = bindE_iff [of "Run_PCA L a" for L a]
lemmas exec_Run_GNN_VAE = bindE_iff [of "Run_GNN_VAE L a l v" for L a l v]
lemmas exec_group_latents = bindE_iff [of "group_latents L ct a" for L ct a]

lemma finder_fail:
  assumes "Latent_Representation_Finder L a s = (Inl e, s')"
  shows "args s' = args s \<and> files s' = files s \<and>
         (trace s' = trace s \<or>
          (\<exists>f a1. trace s' = trace s @ [Ev_highly_variable_genes f (feat_cell (args s)) a1]))"
  using assms unfolding Latent_Representation_Finder_def
  by (auto simp: exec_case split: if_splits sum.splits)

lemma finder_success:
  assumes "Latent_Representation_Finder L a s = (Inr x, s')"
  shows "args s' = args s \<and> files s' = files s \<and>
         (\<exists>f a1. trace s' = trace s @ [Ev_highly_variable_genes f (feat_cell (args s)) a1])"
  using assms unfolding Latent_Representation_Finder_def
  by (auto simp: exec_case split: if_splits sum.splits)

lemma Run_PCA_effect:
  assumes "Run_PCA L self s = (r, s')"
  shows "args s' = args s \<and> files s' = files s \<and> trace s' = trace s @ [Ev_tl_pca self]"
  using assms unfolding Run_PCA_def
  by (auto simp: exec_case split: sum.splits)

lemma Run_GNN_VAE_fail:
  assumes "Run_GNN_VAE L self label verbose s = (Inl e, s')"
  shows "files s' = files s \<and>
         ((trace s' = trace s @ [Ev_adjacency self] \<and> args s' = args s) \<or>
          (\<exists>node_X. trace s' =
               trace s @ [Ev_adjacency self, Ev_train node_X (args s') label verbose] \<and>
             args s' = (args s)\<lparr>n_nodes := Some (shape0 node_X),
                                feat_cell := int (shape1 node_X)\<rparr>))"
  using assms unfolding Run_GNN_VAE_def
  by (auto simp: exec_case split: if_splits sum.splits)

lemma Run_GNN_VAE_success:
  assumes "Run_GNN_VAE L self label verbose s = (Inr x, s')"
  shows "files s' = files s \<and> (\<exists>node_X. trace s' =
               trace s @ [Ev_adjacency self, Ev_train node_X (args s') label verbose] \<and>
             args s' = (args s)\<lparr>n_nodes := Some (shape0 node_X),
                                feat_cell := int (shape1 node_X)\<rparr> \<and>
             (input_pca (args s) \<longrightarrow>
                (\<exists>m0. sc_pp_pca L m0 (n_comps (args s)) = Inr node_X)))"
  using assms unfolding Run_GNN_VAE_def
  by (auto simp: exec_case split: if_splits sum.splits)

lemma group_latents_effect:
  assumes "group_latents L ct adata s = (r, s')"
  shows "files s' = files s \<and>
    (trace s' = trace s \<or>
     (\<exists>f a1. trace s' = trace s @ [Ev_highly_variable_genes f (feat_cell (args s)) a1]) \<or>
     (\<exists>f a1 rep. trace s' =
        trace s @ [Ev_highly_variable_genes f (feat_cell (args s)) a1, Ev_tl_pca rep]) \<or>
     (\<exists>f a1 rep rep'. trace s' =
        trace s @ [Ev_highly_variable_genes f (feat_cell (args s)) a1, Ev_tl_pca rep,
                   Ev_adjacency rep']) \<or>
     (\<exists>f a1 rep rep' nx P'. trace s' =
        trace s @ [Ev_highly_variable_genes f (feat_cell (args s)) a1, Ev_tl_pca rep,
                   Ev_adjacency rep', Ev_train nx P' None ct]))"
  using assms unfolding group_latents_def
  by (auto simp: exec_case exec_Finder exec_Run_PCA exec_Run_GNN_VAE
        split: if_splits sum.splits prod.splits
        dest!: finder_fail finder_success Run_PCA_effect Run_GNN_VAE_fail Run_GNN_VAE_success)

lemma group_latents_success:
  assumes "group_latents L ct adata s = (Inr (part, gvae, pca), s')"
  shows "files s' = files s \<and>
    (\<exists>c. obs_getitem adata (annotation (args s)) = Inr c \<and>
         part = subset_obs (map (\<lambda>v. v = ct) c) adata) \<and>
    (if int (n_obs part) \<le> n_comps (args s)
     then gvae = pca \<and> args s' = args s \<and>
       (\<exists>f a1 rep. trace s' =
          trace s @ [Ev_highly_variable_genes f (feat_cell (args s)) a1, Ev_tl_pca rep])
     else (\<exists>f a1 rep rep' nx. trace s' =
          trace s @ [Ev_highly_variable_genes f (feat_cell (args s)) a1, Ev_tl_pca rep,
                     Ev_adjacency rep', Ev_train nx (args s') None ct]))"
  using assms unfolding group_latents_def
  by (auto simp: exec_case exec_Finder exec_Run_PCA exec_Run_GNN_VAE
        split: if_splits sum.splits prod.splits
        dest!: finder_success Run_PCA_effect Run_GNN_VAE_success)

lemma group_latents_calls:
  assumes "group_latents L ct adata s = (r, s')"
  shows "files s' = files s \<and>
    (\<exists>new. trace s' = trace s @ new \<and>
       (hvg_calls new = [] \<or> hvg_calls new = [feat_cell (args s)]) \<and>
       (\<forall>t \<in> set (train_calls new). fst t = ct \<and> fst (snd t) = None) \<and>
       write_calls new = [] \<and>
       (isl r \<or> hvg_calls new = [feat_cell (args s)]))"
proof (cases r)
  case (Inl e)
  from group_latents_effect [OF assms] show ?thesis
    by (elim conjE disjE exE) (simp_all add: Inl)
next
  case (Inr x)
  obtain part gvae pca where x: "x = (part, gvae, pca)"
    by (cases x) auto
  from group_latents_success [OF assms [unfolded Inr x]] show ?thesis
    by (auto simp: Inr split: if_splits)
qed

lemma group_iteration_split:
  assumes "group_iteration L num ct (adata, G, P) s = (r, s')"
  shows "\<exists>r1 s1. group_latents L ct adata s = (r1, s1) \<and>
          files s' = files s1 \<and> trace s' = trace s1 \<and>
          (isl r \<or> feat_cell (args s') = num \<and> \<not> isl r1)"
  using assms unfolding group_iteration_def
  by (auto simp: exec exec_group_latents)

lemma group_iteration_calls:
  assumes "group_iteration L num ct acc s = (r, s')"
  shows "files s' = files s \<and>
    (\<exists>new. trace s' = trace s @ new \<and>
       (hvg_calls new = [] \<or> hvg_calls new = [feat_cell (args s)]) \<and>
       (\<forall>t \<in> set (train_calls new). fst t = ct \<and> fst (snd t) = None) \<and>
       write_calls new = [] \<and>
       (isl r \<or> hvg_calls new = [feat_cell (args s)] \<and> feat_cell (args s') = num))"
proof -
  obtain adata G P where acc: "acc = (adata, G, P)"
    by (cases acc) auto
  from group_iteration_split [OF assms [unfolded acc]] obtain r1 s1 where
    g: "group_latents L ct adata s = (r1, s1)" and
    f: "files s' = files s1" and t: "trace s' = trace s1" and
    ok: "isl r \<or> feat_cell (args s') = num \<and> \<not> isl r1"
    by blast
  from group_latents_calls [OF g] f t ok show ?thesis
    by auto
qed

lemma for_each_group_calls:
  assumes "for_each_group L num cts acc s = (r, s')"
  shows "files s' = files s \<and>
    (\<exists>new. trace s' = trace s @ new \<and>
       (hvg_calls new = [] \<or> (\<exists>k. hvg_calls new = feat_cell (args s) # replicate k num)) \<and>
       (\<forall>t \<in> set (train_calls new). fst t \<in> set cts \<and> fst (snd t) = None) \<and>
       write_calls new = [])"
  using assms
proof (induction cts arbitrary: acc s)
  case Nil
  then show ?case by simp
next
  case (Cons ct cts)
  obtain r1 s1 where g: "group_iteration L num ct acc s = (r1, s1)"
    by (cases "group_iteration L num ct acc s") auto
  from group_iteration_calls [OF g] obtain new1 where
    f1: "files s1 = files s" and t1: "trace s1 = trace s @ new1" and
    h1: "hvg_calls new1 = [] \<or> hvg_calls new1 = [feat_cell (args s)]" and
    l1: "\<forall>t \<in> set (train_calls new1). fst t = ct \<and> fst (snd t) = None" and
    w1: "write_calls new1 = []" and
    ok1: "isl r1 \<or> hvg_calls new1 = [feat_cell (args s)] \<and> feat_cell (args s1) = num"
    by blast
  show ?case
  proof (cases r1)
    case (Inl e)
    with Cons.prems g have "s' = s1" by simp
    with f1 t1 h1 l1 w1 show ?thesis
      by (auto intro: exI [of _ 0])
  next
    case (Inr acc')
    with Cons.prems g have rest: "for_each_group L num cts acc' s1 = (r, s')" by simp
    from Cons.IH [OF rest] obtain new2 where
      f2: "files s' = files s1" and t2: "trace s' = trace s1 @ new2" and
      h2: "hvg_calls new2 = [] \<or> (\<exists>k. hvg_calls new2 = feat_cell (args s1) # replicate k num)" and
      l2: "\<forall>t \<in> set (train_calls new2). fst t \<in> set cts \<and> fst (snd t) = None" and
      w2: "write_calls new2 = []"
      by blast
    from ok1 Inr have c1: "hvg_calls new1 = [feat_cell (args s)]" and n1: "feat_cell (args s1) = num"
      by auto
    have "\<exists>k. hvg_calls (new1 @ new2) = feat_cell (args s) # replicate k num"
    proof (cases "hvg_calls new2 = []")
      case True
      with c1 show ?thesis by (auto intro: exI [of _ 0])
    next
      case False
      with h2 n1 obtain k where "hvg_calls new2 = num # replicate k num" by auto
      with c1 show ?thesis by (auto intro: exI [of _ "Suc k"])
    qed
    with f1 f2 t1 t2 l1 l2 w1 w2 show ?thesis
      by (intro conjI exI [of _ "new1 @ new2"]) auto
  qed
qed

end
